theory Spec2Isabelle
  imports Main "HOL-Library.Word"
begin

section \<open>Radio Station Voice Generator: the component of \<^verbatim>\<open>src/App.tsx\<close>\<close>

text \<open>
  The repository is one React component. Its state is six \<^verbatim>\<open>useState\<close> cells; its
  logic is four closures over them: \<^verbatim>\<open>handleFileUpload\<close>, \<^verbatim>\<open>parseJsonFile\<close>,
  \<^verbatim>\<open>getTranscriptText\<close> and \<^verbatim>\<open>processAudio\<close>. The embedding keeps the state cells
  as a record, threads a world (component state, the browser's blob URL store and a log
  of what the handlers did) through every handler, and makes each \<^verbatim>\<open>throw\<close> of the
  platform a value, so that the two \<^verbatim>\<open>try\<close>/\<^verbatim>\<open>catch\<close> blocks are branches of the
  model.
\<close>

subsection \<open>Data model (lines 4 to 28)\<close>

type_synonym byte = "8 word"

text \<open>
  A browser \<^verbatim>\<open>File\<close>: its name and its bytes. \<^verbatim>\<open>file.size\<close> is the number of bytes.
\<close>

record File =
  file_name :: string
  file_bytes :: "byte list"

definition file_size :: "File \<Rightarrow> nat" where
  "file_size f = length (file_bytes f)"

text \<open>A blob URL, as handed out by \<^verbatim>\<open>URL.createObjectURL\<close>: the index of its entry.\<close>

datatype url = BlobUrl nat

text \<open>
  \<^verbatim>\<open>interface UploadedFile { file; name; size; url? }\<close>. The fields carry the prefix
  \<open>uf_\<close> because \<open>size\<close> is a constant of HOL.
\<close>

record UploadedFile =
  uf_file :: File
  uf_name :: string
  uf_size :: string
  uf_url :: "url option"

text \<open>
  One element of \<^verbatim>\<open>segments\<close>. The interface declares \<^verbatim>\<open>text: string\<close>, but the
  value comes from \<^verbatim>\<open>JSON.parse(text) as TranscriptData\<close>, an unchecked cast, so at run
  time the property may be missing: reading it then gives \<^verbatim>\<open>undefined\<close>, here \<open>None\<close>.
\<close>

record Segment =
  seg_text :: "string option"
  seg_speaker :: "string option"
  seg_timestamp :: "string option"

text \<open>
  \<^verbatim>\<open>interface TranscriptData { segments?; text? }\<close>: both fields optional, \<open>None\<close> when
  the property is absent. The fields are prefixed because \<open>text\<close> is a keyword here.
\<close>

record TranscriptData =
  td_segments :: "Segment list option"
  td_text :: "string option"

text \<open>
  \<^verbatim>\<open>type ProcessingStep = 'idle' | 'parsing' | 'generating' | 'combining' | 'complete' | 'error'\<close>
\<close>

datatype ProcessingStep = Idle | Parsing | Generating | Combining | Complete | Error

text \<open>The six \<^verbatim>\<open>useState\<close> cells of \<^verbatim>\<open>App\<close>, with the source's names.\<close>

record AppState =
  jsonFile :: "UploadedFile option"
  introFile :: "UploadedFile option"
  outroFile :: "UploadedFile option"
  transcript :: "TranscriptData option"
  processingStep :: ProcessingStep
  finalAudioUrl :: "url option"

definition initial_state :: AppState where
  "initial_state =
     \<lparr>jsonFile = None, introFile = None, outroFile = None, transcript = None,
      processingStep = Idle, finalAudioUrl = None\<rparr>"

subsection \<open>The platform's \<^verbatim>\<open>Array.prototype.join\<close>\<close>

text \<open>
  \<^verbatim>\<open>join\<close> as ECMAScript defines it: \<open>R\<close> starts empty; for \<open>k\<close> from 0 below the
  length, the separator is appended when \<open>k > 0\<close>, then the element, where an element
  that is \<^verbatim>\<open>undefined\<close> or \<^verbatim>\<open>null\<close> is rendered as the empty string.
\<close>

definition element_string :: "string option \<Rightarrow> string" where
  "element_string e = (case e of None \<Rightarrow> [] | Some s \<Rightarrow> s)"

function join_loop :: "string option list \<Rightarrow> string \<Rightarrow> nat \<Rightarrow> string \<Rightarrow> string" where
  "join_loop arr sep k R =
     (if k < length arr
      then join_loop arr sep (Suc k)
             ((if 0 < k then R @ sep else R) @ element_string (arr ! k))
      else R)"
  by pat_completeness auto
termination
  by (relation "measure (\<lambda>(arr, sep, k, R). length arr - k)") auto

declare join_loop.simps [simp del]

definition Array_join :: "string option list \<Rightarrow> string \<Rightarrow> string" where
  "Array_join arr sep = join_loop arr sep 0 []"

subsection \<open>\<^verbatim>\<open>getTranscriptText\<close> (lines 68 to 80)\<close>

text \<open>
  JavaScript's truthiness of a value of type \<^verbatim>\<open>string | undefined\<close>, as tested by
  \<^verbatim>\<open>if (transcript.text)\<close>: \<^verbatim>\<open>undefined\<close> and the empty string are falsy.
\<close>

definition truthy_string :: "string option \<Rightarrow> bool" where
  "truthy_string v = (case v of None \<Rightarrow> False | Some s \<Rightarrow> s \<noteq> [])"

text \<open>
  The closure reads the state cell \<^verbatim>\<open>transcript\<close>; the cell's value is the argument
  here. The tests follow the source's order: \<^verbatim>\<open>!transcript\<close>, then the truthiness of
  \<^verbatim>\<open>transcript.text\<close>, then of \<^verbatim>\<open>transcript.segments\<close> (an array is truthy, also
  when empty), then the final \<^verbatim>\<open>return ''\<close>.
\<close>

definition getTranscriptText :: "TranscriptData option \<Rightarrow> string" where
  "getTranscriptText tr =
     (case tr of
        None \<Rightarrow> []
      | Some t \<Rightarrow>
          (case td_text t of
             Some s \<Rightarrow>
               if truthy_string (Some s) then s
               else (case td_segments t of
                       Some segs \<Rightarrow> Array_join (map seg_text segs) '' ''
                     | None \<Rightarrow> [])
           | None \<Rightarrow>
               (case td_segments t of
                  Some segs \<Rightarrow> Array_join (map seg_text segs) '' ''
                | None \<Rightarrow> [])))"

subsection \<open>The world the handlers run in\<close>

text \<open>
  What a handler can be seen to do, in the order it does it: the calls of the state
  setters, the timer waits, \<^verbatim>\<open>alert\<close> and \<^verbatim>\<open>console.error\<close>.
\<close>

datatype exn = SyntaxError | NotReadableError | TypeError

datatype UploadType = Json | Intro | Outro

datatype Event =
    SetFile UploadType "UploadedFile option"
  | SetTranscript "TranscriptData option"
  | SetProcessingStep ProcessingStep
  | SetFinalAudioUrl "url option"
  | Sleep nat
  | Alert string
  | ConsoleError string exn

text \<open>
  The world: the component's state, the browser's blob URL store (entry \<open>n\<close> is the
  file behind \<open>BlobUrl n\<close>; the source never revokes a URL) and the log of events.
\<close>

record World =
  app :: AppState
  blob_store :: "File list"
  trace :: "Event list"

definition initial_world :: World where
  "initial_world = \<lparr>app = initial_state, blob_store = [], trace = []\<rparr>"

definition log_event :: "Event \<Rightarrow> World \<Rightarrow> World" where
  "log_event ev w = w\<lparr>trace := trace w @ [ev]\<rparr>"

text \<open>The state setters returned by \<^verbatim>\<open>useState\<close>.\<close>

definition setJsonFile :: "UploadedFile option \<Rightarrow> World \<Rightarrow> World" where
  "setJsonFile v w = log_event (SetFile Json v) (w\<lparr>app := (app w)\<lparr>jsonFile := v\<rparr>\<rparr>)"

definition setIntroFile :: "UploadedFile option \<Rightarrow> World \<Rightarrow> World" where
  "setIntroFile v w = log_event (SetFile Intro v) (w\<lparr>app := (app w)\<lparr>introFile := v\<rparr>\<rparr>)"

definition setOutroFile :: "UploadedFile option \<Rightarrow> World \<Rightarrow> World" where
  "setOutroFile v w = log_event (SetFile Outro v) (w\<lparr>app := (app w)\<lparr>outroFile := v\<rparr>\<rparr>)"

definition setTranscript :: "TranscriptData option \<Rightarrow> World \<Rightarrow> World" where
  "setTranscript v w = log_event (SetTranscript v) (w\<lparr>app := (app w)\<lparr>transcript := v\<rparr>\<rparr>)"

definition setProcessingStep :: "ProcessingStep \<Rightarrow> World \<Rightarrow> World" where
  "setProcessingStep v w =
     log_event (SetProcessingStep v) (w\<lparr>app := (app w)\<lparr>processingStep := v\<rparr>\<rparr>)"

definition setFinalAudioUrl :: "url option \<Rightarrow> World \<Rightarrow> World" where
  "setFinalAudioUrl v w =
     log_event (SetFinalAudioUrl v) (w\<lparr>app := (app w)\<lparr>finalAudioUrl := v\<rparr>\<rparr>)"

text \<open>
  \<^verbatim>\<open>URL.createObjectURL(file)\<close> adds an entry for the file to the blob URL store and
  returns its URL; given a \<^verbatim>\<open>File\<close> it does not throw. \<open>resolve\<close> is what fetching
  such a URL yields.
\<close>

definition createObjectURL :: "File \<Rightarrow> World \<Rightarrow> url \<times> World" where
  "createObjectURL f w =
     (BlobUrl (length (blob_store w)), w\<lparr>blob_store := blob_store w @ [f]\<rparr>)"

definition resolve :: "World \<Rightarrow> url \<Rightarrow> File option" where
  "resolve w u =
     (case u of BlobUrl n \<Rightarrow>
        if n < length (blob_store w) then Some (blob_store w ! n) else None)"

subsection \<open>Computations that may throw\<close>

text \<open>
  A step of a \<^verbatim>\<open>try\<close> body either returns a value or throws; either way the state
  changes made so far stay. \<open>and_then\<close> sequences two steps, \<open>try_catch\<close> is the
  \<^verbatim>\<open>try { ... } catch (error) { ... }\<close> of the two async handlers.
\<close>

datatype 'a outcome = Returns 'a World | Throws exn World

definition and_then :: "(World \<Rightarrow> 'a outcome) \<Rightarrow> ('a \<Rightarrow> World \<Rightarrow> 'b outcome) \<Rightarrow> World \<Rightarrow> 'b outcome" where
  "and_then m f w =
     (case m w of Returns a w' \<Rightarrow> f a w' | Throws e w' \<Rightarrow> Throws e w')"

definition does :: "(World \<Rightarrow> World) \<Rightarrow> World \<Rightarrow> unit outcome" where
  "does f w = Returns () (f w)"

definition try_catch :: "(World \<Rightarrow> unit outcome) \<Rightarrow> (exn \<Rightarrow> World \<Rightarrow> World) \<Rightarrow> World \<Rightarrow> World" where
  "try_catch body handler w =
     (case body w of Returns u w' \<Rightarrow> w' | Throws e w' \<Rightarrow> handler e w')"

text \<open>
  The platform functions the component calls and this repository does not define:
  \<^verbatim>\<open>File.prototype.text\<close> (the promise resolves with the decoded content or rejects),
  \<^verbatim>\<open>JSON.parse\<close> (returns the parsed value, \<open>None\<close> for \<^verbatim>\<open>null\<close>, or throws a
  \<^verbatim>\<open>SyntaxError\<close>). \<^verbatim>\<open>formatFileSize\<close> (lines 30 to 36) is floating-point
  arithmetic on the size and only fills the display string \<^verbatim>\<open>size\<close>; it is a
  parameter too.
\<close>

record Platform =
  file_text :: "File \<Rightarrow> exn + string"
  JSON_parse :: "string \<Rightarrow> exn + TranscriptData option"
  formatFileSize :: "nat \<Rightarrow> string"

definition await_text :: "Platform \<Rightarrow> File \<Rightarrow> World \<Rightarrow> string outcome" where
  "await_text P f w = (case file_text P f of Inl e \<Rightarrow> Throws e w | Inr s \<Rightarrow> Returns s w)"

definition call_JSON_parse :: "Platform \<Rightarrow> string \<Rightarrow> World \<Rightarrow> TranscriptData option outcome" where
  "call_JSON_parse P s w = (case JSON_parse P s of Inl e \<Rightarrow> Throws e w | Inr d \<Rightarrow> Returns d w)"

subsection \<open>\<^verbatim>\<open>parseJsonFile\<close> (lines 57 to 66)\<close>

definition parseJsonFile_try :: "Platform \<Rightarrow> File \<Rightarrow> World \<Rightarrow> unit outcome" where
  "parseJsonFile_try P file =
     and_then (await_text P file) (\<lambda>content.
     and_then (call_JSON_parse P content) (\<lambda>data.
     does (setTranscript data)))"

definition parseJsonFile_catch :: "exn \<Rightarrow> World \<Rightarrow> World" where
  "parseJsonFile_catch e w =
     setProcessingStep Error (log_event (ConsoleError ''Error parsing JSON:'' e) w)"

definition parseJsonFile :: "Platform \<Rightarrow> File \<Rightarrow> World \<Rightarrow> World" where
  "parseJsonFile P file = try_catch (parseJsonFile_try P file) parseJsonFile_catch"

subsection \<open>\<^verbatim>\<open>handleFileUpload\<close> (lines 38 to 55)\<close>

text \<open>
  The object literal is evaluated first (with \<^verbatim>\<open>createObjectURL\<close> for the two audio
  slots only), then the slot's setter is called, then a JSON upload is parsed. The
  setter is an argument, as in the source.
\<close>

definition handleFileUpload ::
  "Platform \<Rightarrow> File \<Rightarrow> UploadType \<Rightarrow> (UploadedFile option \<Rightarrow> World \<Rightarrow> World) \<Rightarrow> World \<Rightarrow> World" where
  "handleFileUpload P file ty setter w =
     (let (u, w1) = (if ty \<noteq> Json
                     then (case createObjectURL file w of (u, w') \<Rightarrow> (Some u, w'))
                     else (None, w));
          uploadedFile = \<lparr>uf_file = file, uf_name = file_name file,
                          uf_size = formatFileSize P (file_size file), uf_url = u\<rparr>;
          w2 = setter (Some uploadedFile) w1
      in if ty = Json then parseJsonFile P file w2 else w2)"

subsection \<open>\<^verbatim>\<open>processAudio\<close> (lines 82 to 106)\<close>

text \<open>
  The \<^verbatim>\<open>try\<close> block. Reading \<^verbatim>\<open>introFile.file\<close> is the one place in it where a
  \<^verbatim>\<open>TypeError\<close> could arise, were the cell \<^verbatim>\<open>null\<close>; the waits are
  \<^verbatim>\<open>setTimeout\<close> promises, which resolve.
\<close>

definition read_file_of :: "UploadedFile option \<Rightarrow> World \<Rightarrow> File outcome" where
  "read_file_of v w = (case v of None \<Rightarrow> Throws TypeError w | Some uf \<Rightarrow> Returns (uf_file uf) w)"

definition call_createObjectURL :: "File \<Rightarrow> World \<Rightarrow> url outcome" where
  "call_createObjectURL f w = (case createObjectURL f w of (u, w') \<Rightarrow> Returns u w')"

definition processAudio_try :: "UploadedFile option \<Rightarrow> World \<Rightarrow> unit outcome" where
  "processAudio_try intro =
     and_then (does (setProcessingStep Parsing)) (\<lambda>_.
     and_then (does (log_event (Sleep 1000))) (\<lambda>_.
     and_then (does (setProcessingStep Generating)) (\<lambda>_.
     and_then (does (log_event (Sleep 2000))) (\<lambda>_.
     and_then (does (setProcessingStep Combining)) (\<lambda>_.
     and_then (does (log_event (Sleep 1500))) (\<lambda>_.
     and_then (read_file_of intro) (\<lambda>file.
     and_then (call_createObjectURL file) (\<lambda>finalUrl.
     and_then (does (setFinalAudioUrl (Some finalUrl))) (\<lambda>_.
     does (setProcessingStep Complete))))))))))"

definition processAudio_catch :: "exn \<Rightarrow> World \<Rightarrow> World" where
  "processAudio_catch e w =
     setProcessingStep Error (log_event (ConsoleError ''Processing error:'' e) w)"

text \<open>
  The guard of lines 83 to 86 comes first: with a slot empty the handler alerts and
  returns. Otherwise the \<^verbatim>\<open>try\<close> block runs, with the \<^verbatim>\<open>introFile\<close> the closure
  holds.
\<close>

definition processAudio :: "World \<Rightarrow> World" where
  "processAudio w =
     (if jsonFile (app w) = None \<or> introFile (app w) = None \<or> outroFile (app w) = None
      then log_event (Alert ''Please upload all required files'') w
      else try_catch (processAudio_try (introFile (app w))) processAudio_catch w)"

subsection \<open>The final audio section of the page (lines 301 to 321)\<close>

text \<open>
  The section is rendered when \<^verbatim>\<open>finalAudioUrl && processingStep === 'complete'\<close>; its
  link has \<^verbatim>\<open>href={finalAudioUrl}\<close> and \<^verbatim>\<open>download="radio-show.mp3"\<close>. Following the
  link saves the bytes behind the URL under that name.
\<close>

definition download_final :: "World \<Rightarrow> (string \<times> byte list) option" where
  "download_final w =
     (case finalAudioUrl (app w) of
        None \<Rightarrow> None
      | Some u \<Rightarrow>
          if processingStep (app w) = Complete
          then (case resolve w u of
                  None \<Rightarrow> None
                | Some f \<Rightarrow> Some (''radio-show.mp3'', file_bytes f))
          else None)"

text \<open>The values \<^verbatim>\<open>setProcessingStep\<close> was called with, in order.\<close>

fun steps_of :: "Event list \<Rightarrow> ProcessingStep list" where
  "steps_of [] = []"
| "steps_of (SetProcessingStep s # evs) = s # steps_of evs"
| "steps_of (ev # evs) = steps_of evs"

text \<open>The documents \<^verbatim>\<open>setTranscript\<close> was called with, in order.\<close>

fun transcripts_of :: "Event list \<Rightarrow> TranscriptData option list" where
  "transcripts_of [] = []"
| "transcripts_of (SetTranscript d # evs) = d # transcripts_of evs"
| "transcripts_of (ev # evs) = transcripts_of evs"

text \<open>The events a handler added to the log of the world it started from.\<close>

definition new_events :: "World \<Rightarrow> World \<Rightarrow> Event list" where
  "new_events w w' = drop (length (trace w)) (trace w')"

text \<open>
  A call of \<^verbatim>\<open>getTranscriptText()\<close> from the render (lines 268 and 269), as a
  computation in the world, statement by statement. Every occurrence of \<^verbatim>\<open>transcript\<close>
  in the body is a read of the state cell; \<^verbatim>\<open>transcript.text\<close> and
  \<^verbatim>\<open>transcript.segments\<close> are property reads, which throw a \<^verbatim>\<open>TypeError\<close> on
  \<^verbatim>\<open>null\<close>, and so does \<^verbatim>\<open>.map\<close> on \<^verbatim>\<open>undefined\<close>. The value returned is a
  string or \<^verbatim>\<open>undefined\<close> (\<open>None\<close>), since line 72 returns whatever the property
  read gives.
\<close>

definition returns :: "'a \<Rightarrow> World \<Rightarrow> 'a outcome" where
  "returns v w = Returns v w"

definition read_transcript :: "World \<Rightarrow> TranscriptData option outcome" where
  "read_transcript w = Returns (transcript (app w)) w"

definition transcript_text :: "World \<Rightarrow> string option outcome" where
  "transcript_text =
     and_then read_transcript (\<lambda>tr.
       case tr of None \<Rightarrow> Throws TypeError | Some t \<Rightarrow> returns (td_text t))"

definition transcript_segments :: "World \<Rightarrow> Segment list option outcome" where
  "transcript_segments =
     and_then read_transcript (\<lambda>tr.
       case tr of None \<Rightarrow> Throws TypeError | Some t \<Rightarrow> returns (td_segments t))"

definition run_getTranscriptText :: "World \<Rightarrow> string option outcome" where
  "run_getTranscriptText =
     and_then read_transcript (\<lambda>tr.
       if tr = None then returns (Some [])
       else
         and_then transcript_text (\<lambda>tx.
           if truthy_string tx then transcript_text
           else
             and_then transcript_segments (\<lambda>sg.
               if sg \<noteq> None
               then and_then transcript_segments (\<lambda>arr.
                      case arr of
                        None \<Rightarrow> Throws TypeError
                      | Some segs \<Rightarrow> returns (Some (Array_join (map seg_text segs) '' '')))
               else returns (Some []))))"

subsection \<open>The specification's side\<close>

text \<open>
  What the specification says of a document with segments only: segment \<open>i\<close> contributes
  its text \<open>t\<^sub>i\<close>, or the empty string when it has none, and the result is
  \<open>t\<^sub>1 + " " + t\<^sub>2 + ... + " " + t\<^sub>n\<close>.
\<close>

definition contribution :: "Segment \<Rightarrow> string" where
  "contribution seg = (case seg_text seg of None \<Rightarrow> [] | Some t \<Rightarrow> t)"

fun spaced :: "string list \<Rightarrow> string" where
  "spaced [] = []"
| "spaced [t] = t"
| "spaced (t # u # ts) = t @ '' '' @ spaced (u # ts)"

text \<open>
  The world a complete run of the pipeline leaves behind, written out: the step is
  \<open>Complete\<close>, the final URL is the fresh blob URL, its entry is the intro slot's file.
\<close>

definition completed :: "UploadedFile \<Rightarrow> World \<Rightarrow> World" where
  "completed intro w =
     w\<lparr>app := (app w)\<lparr>processingStep := Complete,
                       finalAudioUrl := Some (BlobUrl (length (blob_store w)))\<rparr>,
       blob_store := blob_store w @ [uf_file intro],
       trace := trace w @
         [SetProcessingStep Parsing, Sleep 1000, SetProcessingStep Generating, Sleep 2000,
          SetProcessingStep Combining, Sleep 1500,
          SetFinalAudioUrl (Some (BlobUrl (length (blob_store w)))),
          SetProcessingStep Complete]\<rparr>"

subsection \<open>A session to run the handlers on\<close>

text \<open>
  The scenario of the specification's end-to-end property: a transcript file holding
  \<^verbatim>\<open>{"text":"Hello world"}\<close>, an intro and an outro file, and a file that is not JSON.
  The platform decodes a file's bytes as ASCII and parses as the browser does on the
  two contents used here.
\<close>

definition bytes_of :: "string \<Rightarrow> byte list" where
  "bytes_of s = map (\<lambda>c. of_char c) s"

definition decode :: "byte list \<Rightarrow> string" where
  "decode bs = map (\<lambda>b. char_of (unat b)) bs"

definition hello_doc :: TranscriptData where
  "hello_doc = \<lparr>td_segments = None, td_text = Some ''Hello world''\<rparr>"

definition demo_platform :: Platform where
  \<open>demo_platform =
     \<lparr>file_text = (\<lambda>f. Inr (decode (file_bytes f))),
      JSON_parse = (\<lambda>s. if s = ''{"text":"Hello world"}'' then Inr (Some hello_doc)
                          else Inl SyntaxError),
      formatFileSize = (\<lambda>n. if n = 0 then ''0 Bytes'' else [])\<rparr>\<close>

definition hello_file :: File where
  \<open>hello_file =
     \<lparr>file_name = ''transcript.json'', file_bytes = bytes_of ''{"text":"Hello world"}''\<rparr>\<close>

definition garbage_file :: File where
  "garbage_file = \<lparr>file_name = ''notes.json'', file_bytes = bytes_of ''{text''\<rparr>"

definition intro_file :: File where
  "intro_file = \<lparr>file_name = ''intro.mp3'', file_bytes = [73, 68, 51, 4]\<rparr>"

definition outro_file :: File where
  "outro_file = \<lparr>file_name = ''outro.mp3'', file_bytes = [73, 68, 51, 3, 0]\<rparr>"

definition uploaded_world :: World where
  "uploaded_world =
     handleFileUpload demo_platform outro_file Outro setOutroFile
       (handleFileUpload demo_platform intro_file Intro setIntroFile
         (handleFileUpload demo_platform hello_file Json setJsonFile initial_world))"

text \<open>The same session with the file that is not JSON in the transcript slot.\<close>

definition garbage_world :: World where
  "garbage_world =
     handleFileUpload demo_platform outro_file Outro setOutroFile
       (handleFileUpload demo_platform intro_file Intro setIntroFile
         (handleFileUpload demo_platform garbage_file Json setJsonFile initial_world))"

definition segment_B :: Segment where
  "segment_B = \<lparr>seg_text = Some ''B'', seg_speaker = None, seg_timestamp = None\<rparr>"

section \<open>Auxiliary facts\<close>

subsection \<open>\<^verbatim>\<open>join\<close> is the spaced concatenation\<close>

text \<open>
  Once the loop is past index 0 every remaining element is preceded by the separator.
\<close>

lemma join_loop_from:
  "0 < k \<Longrightarrow> k \<le> length arr \<Longrightarrow>
   join_loop arr sep k R = R @ concat (map (\<lambda>e. sep @ element_string e) (drop k arr))"
proof (induction arr sep k R rule: join_loop.induct)
  case (1 arr sep k R)
  show ?case
  proof (cases "k < length arr")
    case True
    then have d: "drop k arr = arr ! k # drop (Suc k) arr"
      by (simp add: Cons_nth_drop_Suc)
    have "join_loop arr sep k R =
        join_loop arr sep (Suc k) ((R @ sep) @ element_string (arr ! k))"
      using True "1.prems" by (subst join_loop.simps) simp
    also have "\<dots> = ((R @ sep) @ element_string (arr ! k))
        @ concat (map (\<lambda>e. sep @ element_string e) (drop (Suc k) arr))"
      using True "1.IH" "1.prems" by simp
    finally show ?thesis by (simp add: d)
  next
    case False
    with "1.prems" have "k = length arr" by simp
    then show ?thesis by (subst join_loop.simps) simp
  qed
qed

lemma spaced_Cons: "spaced (t # ts) = t @ concat (map (\<lambda>s. '' '' @ s) ts)"
  by (induction ts arbitrary: t) simp_all

lemma Array_join_spaced: "Array_join arr '' '' = spaced (map element_string arr)"
proof (cases arr)
  case Nil
  then show ?thesis by (simp add: Array_join_def join_loop.simps)
next
  case (Cons e es)
  have "Array_join arr '' '' = join_loop arr '' '' (Suc 0) (element_string e)"
    unfolding Array_join_def by (subst join_loop.simps) (simp add: Cons)
  also have "\<dots> =
      element_string e @ concat (map (\<lambda>x. '' '' @ element_string x) (drop (Suc 0) arr))"
    by (rule join_loop_from) (simp_all add: Cons)
  finally show ?thesis by (simp add: Cons spaced_Cons comp_def)
qed

lemma join_segments_spaced:
  "Array_join (map seg_text segs) '' '' = spaced (map contribution segs)"
proof -
  have "map element_string (map seg_text segs) = map contribution segs"
    by (simp add: contribution_def element_string_def)
  then show ?thesis by (simp only: Array_join_spaced)
qed

subsection \<open>The two handlers, branch by branch\<close>

lemma new_events_log: "new_events w (log_event ev w) = [ev]"
  by (simp add: new_events_def log_event_def)

lemma download_final_log: "download_final (log_event ev w) = download_final w"
  by (simp add: download_final_def log_event_def resolve_def split: option.split url.split)

lemma parseJsonFile_parse_failure:
  assumes "file_text P f = Inr content" "JSON_parse P content = Inl e"
  shows "parseJsonFile P f w = parseJsonFile_catch e w"
  using assms
  by (simp add: parseJsonFile_def try_catch_def parseJsonFile_try_def and_then_def
      await_text_def call_JSON_parse_def)

lemma parseJsonFile_read_failure:
  assumes "file_text P f = Inl e"
  shows "parseJsonFile P f w = parseJsonFile_catch e w"
  using assms
  by (simp add: parseJsonFile_def try_catch_def parseJsonFile_try_def and_then_def
      await_text_def)

lemma parseJsonFile_success:
  assumes "file_text P f = Inr content" "JSON_parse P content = Inr d"
  shows "parseJsonFile P f w = setTranscript d w"
  using assms
  by (simp add: parseJsonFile_def try_catch_def parseJsonFile_try_def and_then_def
      await_text_def call_JSON_parse_def does_def)

lemma new_events_parse_catch:
  "new_events w (parseJsonFile_catch e w) =
     [ConsoleError ''Error parsing JSON:'' e, SetProcessingStep Error]"
  by (simp add: new_events_def parseJsonFile_catch_def setProcessingStep_def log_event_def)

lemma app_parse_catch:
  "app (parseJsonFile_catch e w) = (app w)\<lparr>processingStep := Error\<rparr>"
  by (simp add: parseJsonFile_catch_def setProcessingStep_def log_event_def)

lemma processAudio_try_Some:
  "processAudio_try (Some intro) w = Returns () (completed intro w)"
  by (simp add: processAudio_try_def and_then_def does_def read_file_of_def
      call_createObjectURL_def createObjectURL_def setProcessingStep_def setFinalAudioUrl_def
      log_event_def completed_def)

text \<open>
  With the intro cell empty the \<^verbatim>\<open>try\<close> block would throw after the third wait: the
  \<^verbatim>\<open>catch\<close> branch is a branch of the model, and the guard is what keeps it unreached.
\<close>

lemma processAudio_try_None:
  "processAudio_try None w = Throws TypeError
     (w\<lparr>app := (app w)\<lparr>processingStep := Combining\<rparr>,
        trace := trace w @
          [SetProcessingStep Parsing, Sleep 1000, SetProcessingStep Generating, Sleep 2000,
           SetProcessingStep Combining, Sleep 1500]\<rparr>)"
  by (simp add: processAudio_try_def and_then_def does_def read_file_of_def
      setProcessingStep_def log_event_def)

lemma processAudio_ready:
  assumes "jsonFile (app w) = Some j" "introFile (app w) = Some i" "outroFile (app w) = Some out"
  shows "processAudio w = completed i w"
  using assms by (simp add: processAudio_def try_catch_def processAudio_try_Some)

lemma processAudio_blocked:
  assumes "jsonFile (app w) = None \<or> introFile (app w) = None \<or> outroFile (app w) = None"
  shows "processAudio w = log_event (Alert ''Please upload all required files'') w"
  using assms by (simp add: processAudio_def)

lemma new_events_completed:
  "new_events w (completed i w) =
     [SetProcessingStep Parsing, Sleep 1000, SetProcessingStep Generating, Sleep 2000,
      SetProcessingStep Combining, Sleep 1500,
      SetFinalAudioUrl (Some (BlobUrl (length (blob_store w)))),
      SetProcessingStep Complete]"
  by (simp add: new_events_def completed_def)

lemma download_completed:
  "download_final (completed i w) = Some (''radio-show.mp3'', file_bytes (uf_file i))"
  by (simp add: download_final_def completed_def resolve_def)

subsection \<open>The call of \<^verbatim>\<open>getTranscriptText\<close> in the world\<close>

text \<open>
  The statement-by-statement computation never throws, leaves the world as it found it,
  and its value is the function of lines 68 to 80 applied to the transcript cell.
\<close>

lemma run_getTranscriptText_value:
  "run_getTranscriptText w = Returns (Some (getTranscriptText (transcript (app w)))) w"
proof (cases "transcript (app w)")
  case None
  then show ?thesis
    by (simp add: run_getTranscriptText_def and_then_def read_transcript_def returns_def
        getTranscriptText_def)
next
  case (Some t)
  show ?thesis
  proof (cases "truthy_string (td_text t)")
    case True
    then obtain s where "td_text t = Some s" "s \<noteq> []"
      by (auto simp: truthy_string_def split: option.splits)
    with Some show ?thesis
      by (simp add: run_getTranscriptText_def and_then_def read_transcript_def returns_def
          transcript_text_def getTranscriptText_def truthy_string_def)
  next
    case False
    with Some show ?thesis
      by (cases "td_segments t"; cases "td_text t")
         (simp_all add: run_getTranscriptText_def and_then_def read_transcript_def returns_def
          transcript_text_def transcript_segments_def getTranscriptText_def)
  qed
qed

text \<open>
  By contrast, a computation that calls a setter before it returns does not leave the
  world as it found it.
\<close>

lemma setter_call_changes_world:
  "and_then (does (setProcessingStep Error)) (\<lambda>_. returns (Some [])) w \<noteq> Returns (Some []) w"
proof
  assume "and_then (does (setProcessingStep Error)) (\<lambda>_. returns (Some [])) w = Returns (Some []) w"
  then have "setProcessingStep Error w = w"
    by (simp add: and_then_def does_def returns_def)
  then have "length (trace (setProcessingStep Error w)) = length (trace w)"
    by simp
  then show False
    by (simp add: setProcessingStep_def log_event_def)
qed

subsection \<open>The session\<close>

lemma decode_hello: \<open>decode (file_bytes hello_file) = ''{"text":"Hello world"}''\<close>
  by code_simp

lemma decode_garbage: "decode (file_bytes garbage_file) = ''{text''"
  by code_simp

lemma file_text_hello: \<open>file_text demo_platform hello_file = Inr ''{"text":"Hello world"}''\<close>
  by (simp add: demo_platform_def decode_hello)

lemma parse_hello: \<open>JSON_parse demo_platform ''{"text":"Hello world"}'' = Inr (Some hello_doc)\<close>
  by (simp add: demo_platform_def)

lemma file_text_garbage: "file_text demo_platform garbage_file = Inr ''{text''"
  by (simp add: demo_platform_def decode_garbage)

lemma parse_garbage: "JSON_parse demo_platform ''{text'' = Inl SyntaxError"
  by (simp add: demo_platform_def)

lemma upload_hello:
  "handleFileUpload demo_platform hello_file Json setJsonFile w =
     setTranscript (Some hello_doc)
       (setJsonFile
          (Some \<lparr>uf_file = hello_file, uf_name = ''transcript.json'',
                 uf_size = formatFileSize demo_platform (file_size hello_file),
                 uf_url = None\<rparr>) w)"
  by (simp add: handleFileUpload_def Let_def parseJsonFile_success [OF file_text_hello parse_hello])
     (simp add: hello_file_def)

lemma upload_audio:
  "ty \<noteq> Json \<Longrightarrow>
   handleFileUpload P f ty setter w =
     setter (Some \<lparr>uf_file = f, uf_name = file_name f,
                    uf_size = formatFileSize P (file_size f),
                    uf_url = Some (BlobUrl (length (blob_store w)))\<rparr>)
       (w\<lparr>blob_store := blob_store w @ [f]\<rparr>)"
  by (simp add: handleFileUpload_def Let_def createObjectURL_def)

lemma upload_garbage:
  "handleFileUpload demo_platform garbage_file Json setJsonFile w =
     parseJsonFile_catch SyntaxError
       (setJsonFile
          (Some \<lparr>uf_file = garbage_file, uf_name = ''notes.json'',
                 uf_size = formatFileSize demo_platform (file_size garbage_file),
                 uf_url = None\<rparr>) w)"
  by (simp add: handleFileUpload_def Let_def
      parseJsonFile_parse_failure [OF file_text_garbage parse_garbage])
     (simp add: garbage_file_def)

lemma garbage_app:
  "jsonFile (app garbage_world) =
     Some \<lparr>uf_file = garbage_file, uf_name = ''notes.json'',
           uf_size = formatFileSize demo_platform (file_size garbage_file), uf_url = None\<rparr>"
  "introFile (app garbage_world) =
     Some \<lparr>uf_file = intro_file, uf_name = ''intro.mp3'',
           uf_size = formatFileSize demo_platform (file_size intro_file),
           uf_url = Some (BlobUrl 0)\<rparr>"
  "outroFile (app garbage_world) =
     Some \<lparr>uf_file = outro_file, uf_name = ''outro.mp3'',
           uf_size = formatFileSize demo_platform (file_size outro_file),
           uf_url = Some (BlobUrl 1)\<rparr>"
  "transcript (app garbage_world) = None"
  "processingStep (app garbage_world) = Error"
  by (simp_all add: garbage_world_def upload_garbage upload_audio parseJsonFile_catch_def
      setJsonFile_def setIntroFile_def setOutroFile_def setProcessingStep_def log_event_def
      initial_world_def initial_state_def intro_file_def outro_file_def)

lemma uploaded_app:
  "jsonFile (app uploaded_world) =
     Some \<lparr>uf_file = hello_file, uf_name = ''transcript.json'',
           uf_size = formatFileSize demo_platform (file_size hello_file), uf_url = None\<rparr>"
  "introFile (app uploaded_world) =
     Some \<lparr>uf_file = intro_file, uf_name = ''intro.mp3'',
           uf_size = formatFileSize demo_platform (file_size intro_file),
           uf_url = Some (BlobUrl 0)\<rparr>"
  "outroFile (app uploaded_world) =
     Some \<lparr>uf_file = outro_file, uf_name = ''outro.mp3'',
           uf_size = formatFileSize demo_platform (file_size outro_file),
           uf_url = Some (BlobUrl 1)\<rparr>"
  "transcript (app uploaded_world) = Some hello_doc"
  "processingStep (app uploaded_world) = Idle"
  by (simp_all add: uploaded_world_def upload_hello upload_audio
      setJsonFile_def setIntroFile_def setOutroFile_def setTranscript_def log_event_def
      initial_world_def initial_state_def intro_file_def outro_file_def)

section \<open>The claims\<close>

subsection \<open>Transcript extraction\<close>

text \<open>
  C1. For every document of shape \<^verbatim>\<open>{text: s}\<close>, with \<open>s\<close> a string and no
  \<^verbatim>\<open>segments\<close>, \<^verbatim>\<open>getTranscriptText\<close> returns exactly \<open>s\<close>. For the empty \<open>s\<close>
  the first test fails, no segments are found, and the final \<^verbatim>\<open>return ''\<close> gives
  \<open>s\<close> again.
\<close>

theorem getTranscriptText_text_only:
  "getTranscriptText (Some \<lparr>td_segments = None, td_text = Some s\<rparr>) = s"
  by (cases "s = []") (simp_all add: getTranscriptText_def truthy_string_def)

text \<open>
  C2. For every document with no \<^verbatim>\<open>text\<close> and with \<^verbatim>\<open>segments\<close> \<open>[s\<^sub>1, ..., s\<^sub>n]\<close>,
  \<^verbatim>\<open>getTranscriptText\<close> returns the contributions of the segments in order, separated
  by single spaces, where a segment without a text contributes the empty string; for
  \<open>n = 0\<close> the result is the empty string.
\<close>

theorem getTranscriptText_segments_only:
  "getTranscriptText (Some \<lparr>td_segments = Some segs, td_text = None\<rparr>)
     = spaced (map contribution segs)
   \<and> getTranscriptText (Some \<lparr>td_segments = Some [], td_text = None\<rparr>) = []"
  by (simp add: getTranscriptText_def join_segments_spaced)
     (simp add: Array_join_def join_loop.simps)

text \<open>
  C3, as the specification states it, fails: a document whose \<^verbatim>\<open>text\<close> is present and
  empty, with segments, yields the joined segments and not the text, because the test
  \<^verbatim>\<open>if (transcript.text)\<close> is one of truthiness.
\<close>

theorem getTranscriptText_empty_text_yields_segments:
  "getTranscriptText (Some \<lparr>td_segments = Some [segment_B], td_text = Some []\<rparr>) = ''B''
   \<and> getTranscriptText (Some \<lparr>td_segments = Some [segment_B], td_text = Some []\<rparr>) \<noteq> []"
  by (simp add: getTranscriptText_def truthy_string_def segment_B_def Array_join_def
      join_loop.simps element_string_def)

text \<open>
  C3, amended. For every document in which \<^verbatim>\<open>text\<close> is present and not empty and
  \<^verbatim>\<open>segments\<close> is present, \<^verbatim>\<open>getTranscriptText\<close> returns the text and ignores the
  segments.
\<close>

theorem getTranscriptText_nonempty_text_wins:
  "s \<noteq> [] \<Longrightarrow> getTranscriptText (Some \<lparr>td_segments = Some segs, td_text = Some s\<rparr>) = s"
  by (simp add: getTranscriptText_def truthy_string_def)

text \<open>The specification's example: \<^verbatim>\<open>{text: "A", segments: [{text: "B"}]}\<close> gives "A".\<close>

theorem getTranscriptText_nonempty_text_wins_witness:
  "getTranscriptText (Some \<lparr>td_segments = Some [segment_B], td_text = Some ''A''\<rparr>) = ''A''"
  using getTranscriptText_nonempty_text_wins [of "''A''" "[segment_B]"] by simp

text \<open>
  C4. \<^verbatim>\<open>getTranscriptText\<close> returns the empty string when the transcript is
  \<^verbatim>\<open>null\<close>, and also for the empty object \<^verbatim>\<open>{}\<close>, which has neither field.
\<close>

theorem getTranscriptText_null_and_empty_object:
  "getTranscriptText None = []
   \<and> getTranscriptText (Some \<lparr>td_segments = None, td_text = None\<rparr>) = []"
  by (simp add: getTranscriptText_def)

text \<open>
  C8. \<^verbatim>\<open>getTranscriptText\<close> is a function of the transcript alone and changes nothing:
  run in two worlds that hold equal transcripts, whatever else differs, the body of
  lines 68 to 80 returns the same string in both, without throwing, and each world is
  left as it was (no cell, no blob store entry and no event changes).
\<close>

theorem getTranscriptText_pure:
  assumes "transcript (app w1) = transcript (app w2)"
  shows "\<exists>s. run_getTranscriptText w1 = Returns (Some s) w1
           \<and> run_getTranscriptText w2 = Returns (Some s) w2"
  using assms by (simp add: run_getTranscriptText_value)

text \<open>
  The session before and after the pipeline ran: the two worlds differ in step, final
  URL, blob store and log, and the call gives "Hello world" in both.
\<close>

theorem getTranscriptText_pure_witness:
  "run_getTranscriptText uploaded_world = Returns (Some ''Hello world'') uploaded_world
   \<and> run_getTranscriptText (processAudio uploaded_world)
       = Returns (Some ''Hello world'') (processAudio uploaded_world)
   \<and> processAudio uploaded_world \<noteq> uploaded_world"
proof -
  have p: "processAudio uploaded_world
      = completed (the (introFile (app uploaded_world))) uploaded_world"
    by (simp add: processAudio_ready [OF uploaded_app(1) uploaded_app(2) uploaded_app(3)]
        uploaded_app(2))
  have t: "transcript (app uploaded_world) = transcript (app (processAudio uploaded_world))"
    by (simp add: p completed_def)
  have d: "processAudio uploaded_world \<noteq> uploaded_world"
  proof
    assume "processAudio uploaded_world = uploaded_world"
    then have "processingStep (app (processAudio uploaded_world))
        = processingStep (app uploaded_world)"
      by simp
    then show False by (simp add: p completed_def uploaded_app(5))
  qed
  obtain s where s: "run_getTranscriptText uploaded_world = Returns (Some s) uploaded_world"
      "run_getTranscriptText (processAudio uploaded_world)
         = Returns (Some s) (processAudio uploaded_world)"
    using getTranscriptText_pure [OF t] by blast
  from s(1) have "s = ''Hello world''"
    by (simp add: run_getTranscriptText_value uploaded_app(4) hello_doc_def
        getTranscriptText_def truthy_string_def)
  with s d show ?thesis by simp
qed

subsection \<open>Parsing the uploaded transcript\<close>

text \<open>
  C5, as the specification states it, fails: the step \<open>Error\<close> that a failed parse
  sets is not terminal. The upload stores the file in its slot before it is parsed
  (line 50, then line 53), and the guard of \<^verbatim>\<open>processAudio\<close> reads the three slots
  only; so with the unparseable file selected and both audio files uploaded, the step
  is \<open>Error\<close>, no transcript is stored, and the action runs on to \<open>Complete\<close> and
  offers the download.
\<close>

theorem error_step_is_left_by_processAudio:
  "processingStep (app garbage_world) = Error
   \<and> transcript (app garbage_world) = None
   \<and> processingStep (app (processAudio garbage_world)) = Complete
   \<and> download_final (processAudio garbage_world) = Some (''radio-show.mp3'', [73, 68, 51, 4])"
  by (simp add: garbage_app processAudio_ready [OF garbage_app(1) garbage_app(2) garbage_app(3)]
      download_completed)
     (simp add: completed_def intro_file_def)

text \<open>
  C5, amended. When the content of the uploaded file is not parseable as JSON,
  \<^verbatim>\<open>parseJsonFile\<close> sets the processing step to \<open>Error\<close> and produces no transcript
  document: it logs the error, calls \<^verbatim>\<open>setProcessingStep('error')\<close>, and never calls
  \<^verbatim>\<open>setTranscript\<close>.
\<close>

theorem parseJsonFile_failure_sets_error:
  assumes "file_text P f = Inr content" "JSON_parse P content = Inl e"
  shows "processingStep (app (parseJsonFile P f w)) = Error
    \<and> new_events w (parseJsonFile P f w)
        = [ConsoleError ''Error parsing JSON:'' e, SetProcessingStep Error]
    \<and> transcripts_of (new_events w (parseJsonFile P f w)) = []"
proof -
  have p: "parseJsonFile P f w = parseJsonFile_catch e w"
    using assms by (rule parseJsonFile_parse_failure)
  show ?thesis
    unfolding p new_events_parse_catch app_parse_catch by simp
qed

theorem parseJsonFile_failure_sets_error_witness:
  "processingStep (app (parseJsonFile demo_platform garbage_file initial_world)) = Error
   \<and> new_events initial_world (parseJsonFile demo_platform garbage_file initial_world)
       = [ConsoleError ''Error parsing JSON:'' SyntaxError, SetProcessingStep Error]
   \<and> transcripts_of
        (new_events initial_world (parseJsonFile demo_platform garbage_file initial_world)) = []"
  using parseJsonFile_failure_sets_error [OF file_text_garbage parse_garbage, of initial_world]
  by simp

text \<open>
  C9. When \<^verbatim>\<open>parseJsonFile\<close> fails to parse the uploaded content, the stored
  transcript is left as it was: a transcript parsed earlier is neither overwritten nor
  cleared.
\<close>

theorem parseJsonFile_failure_keeps_transcript:
  assumes "file_text P f = Inr content" "JSON_parse P content = Inl e"
  shows "transcript (app (parseJsonFile P f w)) = transcript (app w)"
proof -
  have "parseJsonFile P f w = parseJsonFile_catch e w"
    using assms by (rule parseJsonFile_parse_failure)
  then show ?thesis by (simp add: app_parse_catch)
qed

text \<open>In the session, where "Hello world" was parsed before the bad file is uploaded.\<close>

theorem parseJsonFile_failure_keeps_transcript_witness:
  "transcript (app (parseJsonFile demo_platform garbage_file uploaded_world)) = Some hello_doc"
  using parseJsonFile_failure_keeps_transcript
          [OF file_text_garbage parse_garbage, of uploaded_world]
  by (simp add: uploaded_app(4))

subsection \<open>The simulated pipeline\<close>

text \<open>
  C6. With a transcript, an intro and an outro file uploaded, \<^verbatim>\<open>processAudio\<close> sets
  the step to parsing, generating, combining and complete, in this order, and the link
  of the final audio section then offers, as \<^verbatim>\<open>radio-show.mp3\<close>, the bytes of the
  uploaded intro file.
\<close>

theorem processAudio_pipeline_yields_intro:
  assumes "jsonFile (app w) = Some j" "introFile (app w) = Some i" "outroFile (app w) = Some out"
  shows "steps_of (new_events w (processAudio w)) = [Parsing, Generating, Combining, Complete]
    \<and> download_final (processAudio w) = Some (''radio-show.mp3'', file_bytes (uf_file i))"
  using assms by (simp add: processAudio_ready new_events_completed download_completed)

text \<open>End to end: the three uploads from the initial world, then the action.\<close>

theorem processAudio_pipeline_yields_intro_witness:
  "steps_of (new_events uploaded_world (processAudio uploaded_world))
     = [Parsing, Generating, Combining, Complete]
   \<and> download_final (processAudio uploaded_world) = Some (''radio-show.mp3'', [73, 68, 51, 4])"
  using processAudio_pipeline_yields_intro [OF uploaded_app(1) uploaded_app(2) uploaded_app(3)]
  by (simp add: intro_file_def)

text \<open>
  C7. When at least one of the three uploads is missing, \<^verbatim>\<open>processAudio\<close> alerts and
  returns: the component's state (the processing step included, so no \<open>Error\<close> is
  entered) and the blob store are unchanged, the alert is the only event, and what can
  be downloaded is what could be before.
\<close>

theorem processAudio_blocked_when_upload_missing:
  assumes "jsonFile (app w) = None \<or> introFile (app w) = None \<or> outroFile (app w) = None"
  shows "app (processAudio w) = app w
    \<and> blob_store (processAudio w) = blob_store w
    \<and> new_events w (processAudio w) = [Alert ''Please upload all required files'']
    \<and> download_final (processAudio w) = download_final w"
proof -
  have p: "processAudio w = log_event (Alert ''Please upload all required files'') w"
    using assms by (rule processAudio_blocked)
  show ?thesis
    unfolding p by (simp add: new_events_log download_final_log) (simp add: log_event_def)
qed

theorem processAudio_blocked_when_upload_missing_witness:
  "app (processAudio initial_world) = initial_state
   \<and> blob_store (processAudio initial_world) = []
   \<and> new_events initial_world (processAudio initial_world)
       = [Alert ''Please upload all required files'']
   \<and> download_final (processAudio initial_world) = None"
proof -
  have "jsonFile (app initial_world) = None \<or> introFile (app initial_world) = None
      \<or> outroFile (app initial_world) = None"
    by (simp add: initial_world_def initial_state_def)
  from processAudio_blocked_when_upload_missing [OF this] show ?thesis
    by (simp add: initial_world_def initial_state_def download_final_def)
qed

text \<open>
  C10. With all three files uploaded, the \<^verbatim>\<open>try\<close> block of \<^verbatim>\<open>processAudio\<close> returns
  without throwing, so the \<^verbatim>\<open>catch\<close> branch is not entered: the invocation ends in
  the step \<open>Complete\<close>, never sets \<open>Error\<close> and logs no error.
\<close>

theorem processAudio_never_catches:
  assumes "jsonFile (app w) = Some j" "introFile (app w) = Some i" "outroFile (app w) = Some out"
  shows "processAudio_try (introFile (app w)) w = Returns () (processAudio w)
    \<and> processingStep (app (processAudio w)) = Complete
    \<and> Error \<notin> set (steps_of (new_events w (processAudio w)))
    \<and> (\<forall>msg e. ConsoleError msg e \<notin> set (new_events w (processAudio w)))"
proof -
  have p: "processAudio w = completed i w"
    using assms by (rule processAudio_ready)
  have "processAudio_try (introFile (app w)) w = Returns () (processAudio w)"
    by (simp add: p assms processAudio_try_Some)
  moreover have "processingStep (app (processAudio w)) = Complete"
    by (simp add: p completed_def)
  moreover have "Error \<notin> set (steps_of (new_events w (processAudio w)))"
    by (simp add: p new_events_completed)
  moreover have "\<forall>msg e. ConsoleError msg e \<notin> set (new_events w (processAudio w))"
    by (simp add: p new_events_completed)
  ultimately show ?thesis by simp
qed

theorem processAudio_never_catches_witness:
  "processAudio_try (introFile (app uploaded_world)) uploaded_world
     = Returns () (processAudio uploaded_world)
   \<and> processingStep (app (processAudio uploaded_world)) = Complete
   \<and> Error \<notin> set (steps_of (new_events uploaded_world (processAudio uploaded_world)))"
  using processAudio_never_catches [OF uploaded_app(1) uploaded_app(2) uploaded_app(3)]
  by simp

end
